theory Spec2Isabelle
  imports Main
begin

section \<open>Values exchanged with the client\<close>

text \<open>
  The server (\<^verbatim>\<open>src/server.js\<close>) is an Express application over a PostgreSQL pool.
  Handlers are modelled as functions from the database state to the new database state
  and the response sent; what the external libraries do (\<^verbatim>\<open>jsonwebtoken\<close>,
  \<^verbatim>\<open>bcrypt\<close>, \<^verbatim>\<open>pg\<close>) is modelled at the level the handlers observe it.
\<close>

text \<open>
  A token produced by \<^verbatim>\<open>jwt.sign\<close> is kept in parsed form: the key it was signed with and
  the claims of its payload. The handlers sign the payload \<^verbatim>\<open>{userId, username}\<close>;
  \<^verbatim>\<open>jsonwebtoken\<close> adds \<^verbatim>\<open>iat\<close>, and \<^verbatim>\<open>exp\<close> only when the option
  \<^verbatim>\<open>expiresIn\<close> is given.
\<close>

record jwt =
  jwt_key :: string
  jwt_userId :: int
  jwt_username :: string
  jwt_iat :: nat
  jwt_exp :: "nat option"

text \<open>
  JSON bodies. A string that is a compact token is the leaf \<open>JTok\<close>, every other string
  is \<open>JStr\<close>. Objects keep their keys in order.
\<close>

datatype json =
    JNull
  | JNum int
  | JStr string
  | JTok jwt
  | JArr "json list"
  | JObj "(string \<times> json) list"

record response =
  res_status :: nat
  res_body :: json

text \<open>\<^verbatim>\<open>res.json(body)\<close> answers with status 200, \<^verbatim>\<open>res.status(s).json(body)\<close> with \<open>s\<close>.\<close>

definition res_json :: "json \<Rightarrow> response" where
  "res_json b = \<lparr>res_status = 200, res_body = b\<rparr>"

definition res_status_json :: "nat \<Rightarrow> json \<Rightarrow> response" where
  "res_status_json s b = \<lparr>res_status = s, res_body = b\<rparr>"

text \<open>
  A JavaScript exception, with the properties the source reads: \<^verbatim>\<open>err.name\<close> in the
  middleware, \<^verbatim>\<open>err.status\<close>, \<^verbatim>\<open>err.message\<close> and \<^verbatim>\<open>err.stack\<close> in the generic error
  handler. Of the stack only its first line, \<^verbatim>\<open>name: message\<close>, is kept.
\<close>

record js_exn =
  exn_name :: string
  exn_message :: string
  exn_status :: "nat option"
  exn_stack :: string

definition js_error :: "string \<Rightarrow> string \<Rightarrow> js_exn" where
  "js_error name message =
     \<lparr>exn_name = name, exn_message = message, exn_status = None,
      exn_stack = name @ '': '' @ message\<rparr>"

text \<open>
  A field of \<^verbatim>\<open>req.body\<close> that the code passes on as a string: it may be missing, null,
  a string, or a value of another type (number, boolean, object, array).
\<close>

datatype js_value = JsUndefined | JsNull | JsString string | JsOther

section \<open>The bcrypt library, as the handlers use it\<close>

text \<open>
  \<^verbatim>\<open>bcrypt.hash(data, 10)\<close>: the promise rejects when \<open>data\<close> is missing or is not a
  string; on a string it is the hashing \<open>bcrypt_hash\<close>, a parameter (with the salt drawn
  for the call).
\<close>

definition bcrypt_hash_call :: "(string \<Rightarrow> string) \<Rightarrow> js_value \<Rightarrow> js_exn + string" where
  "bcrypt_hash_call bcrypt_hash data =
     (case data of
        JsUndefined \<Rightarrow> Inl (js_error ''Error'' ''data and salt arguments required'')
      | JsNull \<Rightarrow> Inl (js_error ''Error'' ''data and salt arguments required'')
      | JsString s \<Rightarrow> Inr (bcrypt_hash s)
      | JsOther \<Rightarrow> Inl (js_error ''Error''
          ''data must be a string or Buffer and salt must either be a salt string or a number of rounds''))"

text \<open>
  \<^verbatim>\<open>bcrypt.compare(data, hash)\<close> with a stored hash: the promise rejects when \<open>data\<close> is
  missing or is not a string; on a string it is the comparison \<open>bcrypt_compare\<close>, a
  parameter.
\<close>

definition bcrypt_compare_call ::
  "(string \<Rightarrow> string \<Rightarrow> bool) \<Rightarrow> js_value \<Rightarrow> string \<Rightarrow> js_exn + bool" where
  "bcrypt_compare_call bcrypt_compare data hash =
     (case data of
        JsUndefined \<Rightarrow> Inl (js_error ''Error'' ''data and hash arguments required'')
      | JsNull \<Rightarrow> Inl (js_error ''Error'' ''data and hash arguments required'')
      | JsString s \<Rightarrow> Inr (bcrypt_compare s hash)
      | JsOther \<Rightarrow> Inl (js_error ''Error'' ''data and hash must be strings''))"

section \<open>The jsonwebtoken library, as the handlers use it\<close>

text \<open>
  \<^verbatim>\<open>jwt.sign(payload, secret, options)\<close> at clock time \<open>now\<close> (seconds). It throws when the
  secret is missing or empty. The token expires only if \<open>expiresIn\<close> is given.
\<close>

definition jwt_sign :: "int \<Rightarrow> string \<Rightarrow> string \<Rightarrow> nat option \<Rightarrow> nat \<Rightarrow> js_exn + jwt" where
  "jwt_sign uid uname secret expiresIn now =
     (if secret = [] then Inl (js_error ''Error'' ''secretOrPrivateKey must have a value'')
      else Inr \<lparr>jwt_key = secret, jwt_userId = uid, jwt_username = uname, jwt_iat = now,
                jwt_exp = (case expiresIn of None \<Rightarrow> None | Some d \<Rightarrow> Some (now + d))\<rparr>)"

text \<open>
  One space-separated piece of a header value: a compact token, or any other text.
\<close>

datatype segment = Text string | Compact jwt

text \<open>
  \<^verbatim>\<open>jwt.verify(token, secret)\<close> at clock time \<open>now\<close>. The argument is \<open>None\<close> for
  \<^verbatim>\<open>undefined\<close>. The checks come in the library's order: a token must be given, it must
  parse, the key must be given, the signature must match, and an \<^verbatim>\<open>exp\<close> claim, when
  present, must lie in the future (\<^verbatim>\<open>clockTimestamp >= payload.exp\<close> is expired).
\<close>

definition jwt_verify :: "segment option \<Rightarrow> string \<Rightarrow> nat \<Rightarrow> js_exn + jwt" where
  "jwt_verify token secret now =
     (case token of
        None \<Rightarrow> Inl (js_error ''JsonWebTokenError'' ''jwt must be provided'')
      | Some (Text s) \<Rightarrow>
          if s = [] then Inl (js_error ''JsonWebTokenError'' ''jwt must be provided'')
          else Inl (js_error ''JsonWebTokenError'' ''jwt malformed'')
      | Some (Compact j) \<Rightarrow>
          if secret = [] then
            Inl (js_error ''JsonWebTokenError'' ''secret or public key must be provided'')
          else if jwt_key j \<noteq> secret then
            Inl (js_error ''JsonWebTokenError'' ''invalid signature'')
          else (case jwt_exp j of
                  None \<Rightarrow> Inr j
                | Some e \<Rightarrow>
                    if now \<ge> e then Inl (js_error ''TokenExpiredError'' ''jwt expired'')
                    else Inr j))"

section \<open>The database\<close>

text \<open>
  The tables, with the columns the SQL statements of the source name. The schema itself
  is not part of the source; see \<open>insert_user\<close> and \<open>insert_progress\<close> for what is taken
  from the specification.
\<close>

record user_row =
  u_id :: int
  u_username :: string
  u_password_hash :: string
  u_adventurer_name :: string
  u_token :: "jwt option"

record progress_row =
  p_id :: int
  p_user_id :: int
  p_story_id :: int
  p_chapter_id :: int
  p_game_state :: json
  p_inventory :: json
  p_save_name :: string

record db =
  users :: "user_row list"
  user_progress :: "progress_row list"
  users_id_seq :: int
  user_progress_id_seq :: int

text \<open>
  Modelled from the spec: the definition of \<^verbatim>\<open>users\<close> is missing from the source. The
  specification makes the username unique; a second row with the same username fails
  with the error PostgreSQL raises for a violated unique constraint.
\<close>

definition unique_violation :: js_exn where
  "unique_violation =
     js_error ''error''
       (''duplicate key value violates unique constraint '' @
          [CHR 0x22] @ ''users_username_key'' @ [CHR 0x22])"

text \<open>
  Modelled from the spec: the definition of \<^verbatim>\<open>users\<close> is missing from the source. The
  specification gives a user an id generated at creation; it is drawn from a counter,
  and a new row has no token. Rows are kept in insertion order. When the statement
  fails no row is added and, in this model, the counter keeps its value.

  \<^verbatim>\<open>INSERT INTO users (username, password_hash, adventurer_name) VALUES ($1, $2, $3)
  RETURNING id, username, adventurer_name\<close>
\<close>

definition insert_user :: "string \<Rightarrow> string \<Rightarrow> string \<Rightarrow> db \<Rightarrow> js_exn + (user_row \<times> db)" where
  "insert_user username hashedPassword adventurerName d =
     (if username \<in> set (map u_username (users d)) then Inl unique_violation
      else
        let u = \<lparr>u_id = users_id_seq d, u_username = username,
                 u_password_hash = hashedPassword, u_adventurer_name = adventurerName,
                 u_token = None\<rparr>
        in Inr (u, d\<lparr>users := users d @ [u], users_id_seq := users_id_seq d + 1\<rparr>))"

text \<open>\<^verbatim>\<open>UPDATE users SET token = $1 WHERE id = $2\<close> (\<open>None\<close> is \<^verbatim>\<open>NULL\<close>).\<close>

definition update_token :: "jwt option \<Rightarrow> int \<Rightarrow> db \<Rightarrow> db" where
  "update_token t uid d =
     d\<lparr>users := map (\<lambda>u. if u_id u = uid then u\<lparr>u_token := t\<rparr> else u) (users d)\<rparr>"

text \<open>\<^verbatim>\<open>SELECT * FROM users WHERE username = $1\<close>, then \<^verbatim>\<open>result.rows[0]\<close>.\<close>

definition select_user_by_username :: "string \<Rightarrow> db \<Rightarrow> user_row option" where
  "select_user_by_username username d = find (\<lambda>u. u_username u = username) (users d)"

text \<open>
  \<^verbatim>\<open>UPDATE users SET adventurer_name = $1 WHERE id = $2 RETURNING id, adventurer_name\<close>
\<close>

definition update_adventurer_name :: "string \<Rightarrow> int \<Rightarrow> db \<Rightarrow> db" where
  "update_adventurer_name n uid d =
     d\<lparr>users := map (\<lambda>u. if u_id u = uid then u\<lparr>u_adventurer_name := n\<rparr> else u) (users d)\<rparr>"

text \<open>
  Modelled from the spec: the definition of \<^verbatim>\<open>user_progress\<close> is missing from the source.
  The specification gives a save a generated id and numeric ids for its owner, story and
  chapter; these columns are taken as PostgreSQL's type \<^verbatim>\<open>integer\<close>, which holds 32-bit
  signed values.
\<close>

definition integer_range :: "int \<Rightarrow> bool" where
  "integer_range i = (- 2147483648 \<le> i \<and> i \<le> 2147483647)"

definition out_of_range :: js_exn where
  "out_of_range = js_error ''error'' ''value is out of range for type integer''"

definition invalid_input_syntax :: js_exn where
  "invalid_input_syntax = js_error ''error'' ''invalid input syntax for type integer''"

text \<open>Blanks and decimal digits, as the input function below reads them.\<close>

definition is_space :: "char \<Rightarrow> bool" where
  "is_space c = (c \<in> set [CHR '' '', CHR 0x09, CHR 0x0A, CHR 0x0B, CHR 0x0C, CHR 0x0D])"

definition digit_of :: "char \<Rightarrow> nat option" where
  "digit_of c =
     map_of [(CHR ''0'', 0), (CHR ''1'', 1), (CHR ''2'', 2), (CHR ''3'', 3), (CHR ''4'', 4),
             (CHR ''5'', 5), (CHR ''6'', 6), (CHR ''7'', 7), (CHR ''8'', 8), (CHR ''9'', 9)] c"

fun digits_value :: "nat \<Rightarrow> string \<Rightarrow> nat option" where
  "digits_value acc [] = Some acc"
| "digits_value acc (c # cs) =
     (case digit_of c of None \<Rightarrow> None | Some v \<Rightarrow> digits_value (10 * acc + v) cs)"

text \<open>
  Modelled from the spec: the text of a parameter compared with such a column is read
  by the input function of \<^verbatim>\<open>integer\<close>, here in its decimal syntax: blanks around, an
  optional sign, digits, and a value in range. Anything else is an error of the
  statement. (The messages of PostgreSQL also quote the value; they go to the server's
  console only.)
\<close>

definition pg_integer :: "string \<Rightarrow> js_exn + int" where
  "pg_integer s =
     (let t = rev (dropWhile is_space (rev (dropWhile is_space s)));
          neg = (t \<noteq> [] \<and> hd t = CHR ''-'');
          ds = (if t \<noteq> [] \<and> (hd t = CHR ''-'' \<or> hd t = CHR ''+'') then tl t else t)
      in if ds = [] then Inl invalid_input_syntax
         else (case digits_value 0 ds of
                 None \<Rightarrow> Inl invalid_input_syntax
               | Some n \<Rightarrow>
                   let i = (if neg then - int n else int n)
                   in if integer_range i then Inr i else Inl out_of_range))"

text \<open>
  Modelled from the spec: the id of a save is drawn from a counter; no constraint ties
  \<^verbatim>\<open>user_id\<close> to the users table in this model, and the two payload columns store the
  value as it is given. The statement fails when a number does not fit its column.

  \<^verbatim>\<open>INSERT INTO user_progress (user_id, story_id, chapter_id, game_state, inventory,
  save_name) VALUES ($1, $2, $3, $4, $5, $6) RETURNING id, save_name\<close>
\<close>

definition insert_progress ::
  "int \<Rightarrow> int \<Rightarrow> int \<Rightarrow> json \<Rightarrow> json \<Rightarrow> string \<Rightarrow> db \<Rightarrow> js_exn + (progress_row \<times> db)" where
  "insert_progress userId storyId chapterId gameState inventory saveName d =
     (if \<not> (integer_range userId \<and> integer_range storyId \<and> integer_range chapterId)
      then Inl out_of_range
      else
        let p = \<lparr>p_id = user_progress_id_seq d, p_user_id = userId, p_story_id = storyId,
                 p_chapter_id = chapterId, p_game_state = gameState, p_inventory = inventory,
                 p_save_name = saveName\<rparr>
        in Inr (p, d\<lparr>user_progress := user_progress d @ [p],
                     user_progress_id_seq := user_progress_id_seq d + 1\<rparr>))"

text \<open>
  \<^verbatim>\<open>SELECT * FROM user_progress WHERE user_id = $1 ORDER BY id DESC LIMIT 1\<close>
\<close>

definition select_latest_progress :: "int \<Rightarrow> db \<Rightarrow> progress_row list" where
  "select_latest_progress uid d =
     take 1 (rev (sort_key p_id (filter (\<lambda>p. p_user_id p = uid) (user_progress d))))"

text \<open>
  \<^verbatim>\<open>DELETE FROM user_progress WHERE id = $1 AND user_id = $2 RETURNING id, save_name\<close>,
  where \<open>$1\<close> is the text of the route parameter: the statement fails when that text is
  not an \<^verbatim>\<open>integer\<close>; otherwise it gives the deleted rows, and the table without them.
\<close>

definition delete_progress_rows ::
  "string \<Rightarrow> int \<Rightarrow> db \<Rightarrow> js_exn + (progress_row list \<times> db)" where
  "delete_progress_rows progressId uid d =
     (case pg_integer progressId of
        Inl err \<Rightarrow> Inl err
      | Inr i \<Rightarrow>
          Inr (filter (\<lambda>p. p_id p = i \<and> p_user_id p = uid) (user_progress d),
               d\<lparr>user_progress :=
                   filter (\<lambda>p. \<not> (p_id p = i \<and> p_user_id p = uid)) (user_progress d)\<rparr>))"

section \<open>The middleware \<^verbatim>\<open>authenticateUser\<close>\<close>

text \<open>\<^verbatim>\<open>req.user\<close>, as the middleware sets it.\<close>

record req_user =
  ru_userId :: int
  ru_username :: string

text \<open>\<^verbatim>\<open>xs[i]\<close> in JavaScript: \<^verbatim>\<open>undefined\<close> out of range.\<close>

fun js_index :: "'a list \<Rightarrow> nat \<Rightarrow> 'a option" where
  "js_index [] i = None"
| "js_index (x # xs) 0 = Some x"
| "js_index (x # xs) (Suc i) = js_index xs i"

text \<open>
  The header \<^verbatim>\<open>req.headers.authorization\<close> is \<open>None\<close> when the request has none, and
  otherwise the list of its pieces between single spaces, which is what
  \<^verbatim>\<open>.split(' ')\<close> returns. Reading \<^verbatim>\<open>.split\<close> of \<^verbatim>\<open>undefined\<close> throws a TypeError.
\<close>

definition split_authorization :: "segment list option \<Rightarrow> js_exn + segment list" where
  "split_authorization authorization =
     (case authorization of
        None \<Rightarrow> Inl (js_error ''TypeError''
                       ''Cannot read properties of undefined (reading 'split')'')
      | Some segs \<Rightarrow> Inr segs)"

text \<open>
  The middleware: \<open>Inr\<close> is \<^verbatim>\<open>next()\<close> with \<^verbatim>\<open>req.user\<close> set, \<open>Inl\<close> the response it
  sends itself. The pool is in its scope, so the database state is an argument.
\<close>

definition authenticateUser ::
  "string \<Rightarrow> nat \<Rightarrow> db \<Rightarrow> segment list option \<Rightarrow> response + req_user" where
  "authenticateUser secret now d authorization =
     (case (case split_authorization authorization of
              Inl err \<Rightarrow> Inl err
            | Inr segs \<Rightarrow> jwt_verify (js_index segs 1) secret now) of
        Inr decoded \<Rightarrow> Inr \<lparr>ru_userId = jwt_userId decoded, ru_username = jwt_username decoded\<rparr>
      | Inl err \<Rightarrow>
          if exn_name err = ''TokenExpiredError'' then
            Inl (res_status_json 401 (JObj [(''error'', JStr ''Token expired'')]))
          else Inl (res_status_json 401 (JObj [(''error'', JStr ''Unauthorized'')])))"

text \<open>A route behind the middleware: the handler runs only after \<^verbatim>\<open>next()\<close>.\<close>

definition protected ::
  "(req_user \<Rightarrow> db \<Rightarrow> db \<times> response) \<Rightarrow> string \<Rightarrow> nat \<Rightarrow> segment list option \<Rightarrow> db
     \<Rightarrow> db \<times> response" where
  "protected handler secret now authorization d =
     (case authenticateUser secret now d authorization of
        Inl r \<Rightarrow> (d, r)
      | Inr user \<Rightarrow> handler user d)"

section \<open>Rows as JSON\<close>

text \<open>The row of \<^verbatim>\<open>RETURNING id, username, adventurer_name\<close>.\<close>

definition returning_user :: "user_row \<Rightarrow> (string \<times> json) list" where
  "returning_user u =
     [(''id'', JNum (u_id u)), (''username'', JStr (u_username u)),
      (''adventurer_name'', JStr (u_adventurer_name u))]"

text \<open>The row of \<^verbatim>\<open>SELECT * FROM users\<close>: every column.\<close>

definition select_star_user :: "user_row \<Rightarrow> (string \<times> json) list" where
  "select_star_user u =
     [(''id'', JNum (u_id u)), (''username'', JStr (u_username u)),
      (''password_hash'', JStr (u_password_hash u)),
      (''adventurer_name'', JStr (u_adventurer_name u)),
      (''token'', (case u_token u of None \<Rightarrow> JNull | Some t \<Rightarrow> JTok t))]"

text \<open>The row of \<^verbatim>\<open>RETURNING id, save_name\<close>.\<close>

definition returning_progress :: "progress_row \<Rightarrow> (string \<times> json) list" where
  "returning_progress p = [(''id'', JNum (p_id p)), (''save_name'', JStr (p_save_name p))]"

text \<open>The row of \<^verbatim>\<open>SELECT * FROM user_progress\<close>.\<close>

definition select_star_progress :: "progress_row \<Rightarrow> (string \<times> json) list" where
  "select_star_progress p =
     [(''id'', JNum (p_id p)), (''user_id'', JNum (p_user_id p)),
      (''story_id'', JNum (p_story_id p)), (''chapter_id'', JNum (p_chapter_id p)),
      (''game_state'', p_game_state p), (''inventory'', p_inventory p),
      (''save_name'', JStr (p_save_name p))]"

text \<open>
  \<^verbatim>\<open>{ ...obj, key: v }\<close>: a key of \<open>obj\<close> keeps its place and takes the new value, a new
  key goes last.
\<close>

definition js_spread_set :: "(string \<times> json) list \<Rightarrow> string \<Rightarrow> json \<Rightarrow> (string \<times> json) list" where
  "js_spread_set obj key v =
     (if key \<in> set (map fst obj) then map (\<lambda>(k, x). if k = key then (k, v) else (k, x)) obj
      else obj @ [(key, v)])"

section \<open>The generic error handler\<close>

text \<open>
  \<^verbatim>\<open>next(err)\<close> ends in the last \<^verbatim>\<open>app.use\<close>: the status is \<^verbatim>\<open>err.status || 500\<close>, the
  body \<^verbatim>\<open>{ error: { message, status } }\<close> with \<^verbatim>\<open>message = err.message\<close>. The stack goes
  to the server's console only.
\<close>

definition error_handler :: "js_exn \<Rightarrow> response" where
  "error_handler err =
     (let status = (case exn_status err of None \<Rightarrow> 500 | Some s \<Rightarrow> if s = 0 then 500 else s);
          message = exn_message err
      in res_status_json status
           (JObj [(''error'', JObj [(''message'', JStr message), (''status'', JNum (int status))])]))"

section \<open>The routes\<close>

text \<open>
  \<open>secret\<close> is \<^verbatim>\<open>SECRET_KEY\<close>, \<open>now\<close> the clock in seconds when the request is served.
  \<open>bcrypt_hash\<close> and \<open>bcrypt_compare\<close> are what bcrypt computes on strings. The fields of
  \<^verbatim>\<open>req.body\<close> and the route parameter are arguments.
\<close>

text \<open>The answer of the \<^verbatim>\<open>catch\<close> blocks that do not call \<^verbatim>\<open>next(err)\<close>.\<close>

definition internal_server_error :: response where
  "internal_server_error = res_status_json 500 (JObj [(''error'', JStr ''Internal Server Error'')])"

definition invalid_login :: response where
  "invalid_login = res_status_json 401 (JObj [(''error'', JStr ''Invalid username or password'')])"

text \<open>\<^verbatim>\<open>POST /sign-up\<close>\<close>

definition sign_up ::
  "string \<Rightarrow> nat \<Rightarrow> (string \<Rightarrow> string) \<Rightarrow> string \<Rightarrow> js_value \<Rightarrow> string \<Rightarrow> db \<Rightarrow> db \<times> response" where
  "sign_up secret now bcrypt_hash username password adventurerName d =
     (case bcrypt_hash_call bcrypt_hash password of
        Inl err \<Rightarrow> (d, error_handler err)
      | Inr hashedPassword \<Rightarrow>
          (case insert_user username hashedPassword adventurerName d of
             Inl err \<Rightarrow> (d, error_handler err)
           | Inr (user, d1) \<Rightarrow>
               (case jwt_sign (u_id user) (u_username user) secret None now of
                  Inl err \<Rightarrow> (d1, error_handler err)
                | Inr token \<Rightarrow>
                    (update_token (Some token) (u_id user) d1,
                     res_json (JObj [(''user'',
                       JObj [(''user'', JObj (returning_user user)), (''token'', JTok token)])])))))"

text \<open>\<^verbatim>\<open>POST /login\<close>\<close>

definition login ::
  "string \<Rightarrow> nat \<Rightarrow> (string \<Rightarrow> string \<Rightarrow> bool) \<Rightarrow> string \<Rightarrow> js_value \<Rightarrow> db \<Rightarrow> db \<times> response" where
  "login secret now bcrypt_compare username password d =
     (case select_user_by_username username d of
        None \<Rightarrow> (d, invalid_login)
      | Some user \<Rightarrow>
          (case bcrypt_compare_call bcrypt_compare password (u_password_hash user) of
             Inl err \<Rightarrow> (d, error_handler err)
           | Inr passwordMatch \<Rightarrow>
               if \<not> passwordMatch then (d, invalid_login)
               else
                 (case jwt_sign (u_id user) (u_username user) secret None now of
                    Inl err \<Rightarrow> (d, error_handler err)
                  | Inr newToken \<Rightarrow>
                      (update_token (Some newToken) (u_id user) d,
                       res_json (JObj [(''user'',
                         JObj (js_spread_set (select_star_user user) ''token''
                                 (JTok newToken)))])))))"

text \<open>\<^verbatim>\<open>POST /logout\<close>, behind the middleware.\<close>

definition logout_handler :: "req_user \<Rightarrow> db \<Rightarrow> db \<times> response" where
  "logout_handler user d =
     (update_token None (ru_userId user) d,
      res_json (JObj [(''message'', JStr ''Logout successful'')]))"

definition logout :: "string \<Rightarrow> nat \<Rightarrow> segment list option \<Rightarrow> db \<Rightarrow> db \<times> response" where
  "logout = protected logout_handler"

text \<open>\<^verbatim>\<open>GET /game\<close>, behind the middleware.\<close>

definition game_handler :: "req_user \<Rightarrow> db \<Rightarrow> db \<times> response" where
  "game_handler user d =
     (d, res_json (JObj [(''userId'', JNum (ru_userId user)),
                         (''username'', JStr (ru_username user))]))"

definition game :: "string \<Rightarrow> nat \<Rightarrow> segment list option \<Rightarrow> db \<Rightarrow> db \<times> response" where
  "game = protected game_handler"

text \<open>
  \<^verbatim>\<open>POST /save-progress\<close>, behind the middleware. All six values of the INSERT,
  \<open>userId\<close> among them, are read from \<^verbatim>\<open>req.body\<close>.
\<close>

definition save_progress_handler ::
  "int \<Rightarrow> int \<Rightarrow> int \<Rightarrow> json \<Rightarrow> json \<Rightarrow> string \<Rightarrow> req_user \<Rightarrow> db \<Rightarrow> db \<times> response" where
  "save_progress_handler userId storyId chapterId gameState inventory saveName user d =
     (case insert_progress userId storyId chapterId gameState inventory saveName d of
        Inl err \<Rightarrow> (d, internal_server_error)
      | Inr (savedProgress, d1) \<Rightarrow>
          (d1, res_status_json 200
                 (JObj [(''savedProgress'', JObj (returning_progress savedProgress))])))"

definition save_progress ::
  "int \<Rightarrow> int \<Rightarrow> int \<Rightarrow> json \<Rightarrow> json \<Rightarrow> string \<Rightarrow>
     string \<Rightarrow> nat \<Rightarrow> segment list option \<Rightarrow> db \<Rightarrow> db \<times> response" where
  "save_progress userId storyId chapterId gameState inventory saveName =
     protected (save_progress_handler userId storyId chapterId gameState inventory saveName)"

text \<open>\<^verbatim>\<open>GET /load-progress\<close>, behind the middleware.\<close>

definition load_progress_handler :: "req_user \<Rightarrow> db \<Rightarrow> db \<times> response" where
  "load_progress_handler user d =
     (case select_latest_progress (ru_userId user) d of
        [] \<Rightarrow> (d, res_status_json 404 (JObj [(''error'', JStr ''No saved game found.'')]))
      | savedGameData # _ \<Rightarrow>
          (d, res_status_json 200
                (JObj [(''savedGameData'', JObj (select_star_progress savedGameData))])))"

definition load_progress :: "string \<Rightarrow> nat \<Rightarrow> segment list option \<Rightarrow> db \<Rightarrow> db \<times> response" where
  "load_progress = protected load_progress_handler"

text \<open>
  \<^verbatim>\<open>DELETE /delete-progress/:progressId\<close>, behind the middleware. The route parameter is
  the string \<^verbatim>\<open>req.params.progressId\<close>.
\<close>

definition delete_not_found :: response where
  "delete_not_found =
     res_status_json 404 (JObj [(''error'', JStr ''Saved game not found or unauthorized to delete.'')])"

definition deleted_successfully :: response where
  "deleted_successfully =
     res_status_json 200 (JObj [(''message'', JStr ''Saved game deleted successfully.'')])"

definition delete_progress_handler :: "string \<Rightarrow> req_user \<Rightarrow> db \<Rightarrow> db \<times> response" where
  "delete_progress_handler progressId user d =
     (case delete_progress_rows progressId (ru_userId user) d of
        Inl err \<Rightarrow> (d, internal_server_error)
      | Inr (rows, d1) \<Rightarrow>
          if length rows \<noteq> 1 then (d1, delete_not_found)
          else (d1, deleted_successfully))"

definition delete_progress ::
  "string \<Rightarrow> string \<Rightarrow> nat \<Rightarrow> segment list option \<Rightarrow> db \<Rightarrow> db \<times> response" where
  "delete_progress progressId = protected (delete_progress_handler progressId)"

text \<open>\<^verbatim>\<open>POST /update-player\<close>, behind the middleware.\<close>

definition update_player_handler :: "string \<Rightarrow> req_user \<Rightarrow> db \<Rightarrow> db \<times> response" where
  "update_player_handler newAdventurerName user d =
     (update_adventurer_name newAdventurerName (ru_userId user) d,
      res_json (JObj [(''message'', JStr ''Saved Adventurer Name successfully.'')]))"

definition update_player ::
  "string \<Rightarrow> string \<Rightarrow> nat \<Rightarrow> segment list option \<Rightarrow> db \<Rightarrow> db \<times> response" where
  "update_player newAdventurerName = protected (update_player_handler newAdventurerName)"


section \<open>Notions the properties are stated with\<close>

text \<open>The token a request presents: the piece the middleware hands to \<^verbatim>\<open>jwt.verify\<close>.\<close>

definition presented :: "segment list option \<Rightarrow> jwt option" where
  "presented authorization =
     (case authorization of
        None \<Rightarrow> None
      | Some segs \<Rightarrow> (case js_index segs 1 of Some (Compact j) \<Rightarrow> Some j | _ \<Rightarrow> None))"

text \<open>A token is well formed when it carries a valid signature under the server's key.\<close>

definition well_signed :: "string \<Rightarrow> jwt \<Rightarrow> bool" where
  "well_signed secret j = (secret \<noteq> [] \<and> jwt_key j = secret)"

definition unexpired :: "nat \<Rightarrow> jwt \<Rightarrow> bool" where
  "unexpired now j = (case jwt_exp j of None \<Rightarrow> True | Some e \<Rightarrow> now < e)"

text \<open>The token stored on a user's record.\<close>

definition stored_token :: "db \<Rightarrow> int \<Rightarrow> jwt option" where
  "stored_token d uid =
     (case find (\<lambda>u. u_id u = uid) (users d) of None \<Rightarrow> None | Some u \<Rightarrow> u_token u)"

text \<open>Reading a key of a JSON object.\<close>

definition json_get :: "string \<Rightarrow> json \<Rightarrow> json option" where
  "json_get key v = (case v of JObj kvs \<Rightarrow> map_of kvs key | _ \<Rightarrow> None)"

text \<open>
  The token a sign-up or login response hands to the client: both put it at
  \<^verbatim>\<open>user.token\<close> of the body.
\<close>

definition issued_token :: "response \<Rightarrow> jwt option" where
  "issued_token r =
     (case json_get ''user'' (res_body r) of
        None \<Rightarrow> None
      | Some u \<Rightarrow> (case json_get ''token'' u of Some (JTok t) \<Rightarrow> Some t | _ \<Rightarrow> None))"

definition unauthorized :: response where
  "unauthorized = res_status_json 401 (JObj [(''error'', JStr ''Unauthorized'')])"

definition token_expired :: response where
  "token_expired = res_status_json 401 (JObj [(''error'', JStr ''Token expired'')])"


text \<open>
  Ids follow creation: along the table, which is in insertion order, the ids increase,
  and the counter is above all of them.
\<close>

definition ids_follow_creation :: "db \<Rightarrow> bool" where
  "ids_follow_creation d =
     (sorted_wrt (<) (map p_id (user_progress d)) \<and>
      list_all (\<lambda>p. p_id p < user_progress_id_seq d) (user_progress d))"



section \<open>A small run of the server\<close>

definition example_secret :: string where
  "example_secret = ''k1''"

text \<open>Stand-ins for bcrypt in the concrete runs; the general theorems hold for any.\<close>

definition example_hash :: "string \<Rightarrow> string" where
  "example_hash p = ''$2b$10$'' @ p"

definition example_compare :: "string \<Rightarrow> string \<Rightarrow> bool" where
  "example_compare p h = (h = example_hash p)"

definition bearer :: "jwt \<Rightarrow> segment list option" where
  "bearer t = Some [Text ''Bearer'', Compact t]"

definition db0 :: db where
  "db0 = \<lparr>users = [], user_progress = [], users_id_seq = 1, user_progress_id_seq = 1\<rparr>"

definition token_astra :: jwt where
  "token_astra = \<lparr>jwt_key = ''k1'', jwt_userId = 1, jwt_username = ''astra'',
                   jwt_iat = 100, jwt_exp = None\<rparr>"

definition token_astra2 :: jwt where
  "token_astra2 = \<lparr>jwt_key = ''k1'', jwt_userId = 1, jwt_username = ''astra'',
                    jwt_iat = 250, jwt_exp = None\<rparr>"

definition token_borin :: jwt where
  "token_borin = \<lparr>jwt_key = ''k1'', jwt_userId = 2, jwt_username = ''borin'',
                   jwt_iat = 110, jwt_exp = None\<rparr>"

definition astra :: "jwt option \<Rightarrow> user_row" where
  "astra t = \<lparr>u_id = 1, u_username = ''astra'', u_password_hash = ''$2b$10$pw1'',
              u_adventurer_name = ''Zel'', u_token = t\<rparr>"

definition borin :: user_row where
  "borin = \<lparr>u_id = 2, u_username = ''borin'', u_password_hash = ''$2b$10$pw2'',
            u_adventurer_name = ''Bo'', u_token = Some token_borin\<rparr>"

definition db_astra :: db where
  "db_astra = \<lparr>users = [astra (Some token_astra)], user_progress = [],
               users_id_seq = 2, user_progress_id_seq = 1\<rparr>"

definition db_logged_out :: db where
  "db_logged_out = \<lparr>users = [astra None], user_progress = [],
                    users_id_seq = 2, user_progress_id_seq = 1\<rparr>"

definition db_relogin :: db where
  "db_relogin = \<lparr>users = [astra (Some token_astra2)], user_progress = [],
                 users_id_seq = 2, user_progress_id_seq = 1\<rparr>"

definition db_two :: db where
  "db_two = \<lparr>users = [astra (Some token_astra), borin], user_progress = [],
             users_id_seq = 3, user_progress_id_seq = 1\<rparr>"

definition slot :: "int \<Rightarrow> int \<Rightarrow> string \<Rightarrow> progress_row" where
  "slot i owner name = \<lparr>p_id = i, p_user_id = owner, p_story_id = 1, p_chapter_id = 2,
                        p_game_state = JObj [(''hp'', JNum 10)], p_inventory = JArr [],
                        p_save_name = name\<rparr>"

definition db_saves :: db where
  "db_saves = \<lparr>users = [astra (Some token_astra), borin],
               user_progress = [slot 1 1 ''slot1'', slot 2 2 ''borin1'', slot 3 1 ''slot2''],
               users_id_seq = 3, user_progress_id_seq = 4\<rparr>"


section \<open>The run is a run of the handlers\<close>

lemmas example_defs =
  example_secret_def example_hash_def example_compare_def bearer_def db0_def
  token_astra_def token_astra2_def token_borin_def astra_def borin_def slot_def

lemmas route_defs =
  sign_up_def login_def bcrypt_hash_call_def bcrypt_compare_call_def insert_user_def
  jwt_sign_def update_token_def
  select_user_by_username_def protected_def authenticateUser_def split_authorization_def
  jwt_verify_def js_error_def res_json_def res_status_json_def

lemma db_astra_reached:
  "sign_up example_secret 100 example_hash ''astra'' (JsString ''pw1'') ''Zel'' db0 =
     (db_astra, res_json (JObj [(''user'',
        JObj [(''user'', JObj [(''id'', JNum 1), (''username'', JStr ''astra''),
                               (''adventurer_name'', JStr ''Zel'')]),
              (''token'', JTok token_astra)])]))"
  by (simp add: db_astra_def example_defs route_defs returning_user_def Let_def)

lemma db_logged_out_reached:
  "logout example_secret 200 (bearer token_astra) db_astra =
     (db_logged_out, res_json (JObj [(''message'', JStr ''Logout successful'')]))"
  by (simp add: db_astra_def db_logged_out_def logout_def logout_handler_def
      example_defs route_defs)

lemma db_relogin_reached:
  "fst (login example_secret 250 example_compare ''astra'' (JsString ''pw1'') db_astra) = db_relogin"
  by (simp add: db_astra_def db_relogin_def example_defs route_defs)

lemma db_two_reached:
  "fst (sign_up example_secret 110 example_hash ''borin'' (JsString ''pw2'') ''Bo'' db_astra) = db_two"
  by (simp add: db_astra_def db_two_def example_defs route_defs Let_def)

lemma db_saves_reached:
  "fst (save_progress 1 1 2 (JObj [(''hp'', JNum 10)]) (JArr []) ''slot2''
          example_secret 140 (bearer token_astra)
       (fst (save_progress 2 1 2 (JObj [(''hp'', JNum 10)]) (JArr []) ''borin1''
          example_secret 130 (bearer token_borin)
       (fst (save_progress 1 1 2 (JObj [(''hp'', JNum 10)]) (JArr []) ''slot1''
          example_secret 120 (bearer token_astra) db_two))))) = db_saves"
  by (simp add: db_two_def db_saves_def save_progress_def save_progress_handler_def
      insert_progress_def integer_range_def example_defs route_defs Let_def)

section \<open>The middleware\<close>

lemma authenticateUser_accepts:
  "authenticateUser secret now d authorization = Inr user \<longleftrightarrow>
     (\<exists>j. presented authorization = Some j \<and> well_signed secret j \<and> unexpired now j \<and>
          user = \<lparr>ru_userId = jwt_userId j, ru_username = jwt_username j\<rparr>)"
proof (cases authorization)
  case None
  then show ?thesis
    by (simp add: authenticateUser_def split_authorization_def presented_def)
next
  case (Some segs)
  show ?thesis
  proof (cases "js_index segs 1")
    case None
    with Some show ?thesis
      by (simp add: authenticateUser_def split_authorization_def presented_def jwt_verify_def)
  next
    case (Some seg)
    note seg = this
    show ?thesis
    proof (cases seg)
      case (Text s)
      with seg \<open>authorization = Some segs\<close> show ?thesis
        by (simp add: authenticateUser_def split_authorization_def presented_def jwt_verify_def)
    next
      case (Compact j)
      with seg \<open>authorization = Some segs\<close> show ?thesis
        by (cases "jwt_exp j")
           (auto simp: authenticateUser_def split_authorization_def presented_def
              jwt_verify_def well_signed_def unexpired_def)
    qed
  qed
qed

lemma authenticateUser_expired:
  assumes "presented authorization = Some j" and "well_signed secret j"
    and "jwt_exp j = Some e" and "e \<le> now"
  shows "authenticateUser secret now d authorization = Inl token_expired"
proof -
  from assms(1) obtain segs where "authorization = Some segs"
    and "js_index segs 1 = Some (Compact j)"
    by (auto simp: presented_def split: option.splits segment.splits)
  with assms(2-4) show ?thesis
    by (simp add: authenticateUser_def split_authorization_def jwt_verify_def
        well_signed_def js_error_def token_expired_def)
qed

lemma authenticateUser_rejects:
  "authenticateUser secret now d authorization = Inl r \<Longrightarrow> r = token_expired \<or> r = unauthorized"
  by (auto simp: authenticateUser_def token_expired_def unauthorized_def
      split: sum.splits if_splits)

text \<open>
  C9. The decision of the middleware and the identity it attaches depend on the header,
  the key and the clock only: for any two states of the database the result is the same.
\<close>

theorem gate_ignores_database:
  "authenticateUser secret now d1 authorization = authenticateUser secret now d2 authorization"
  by (simp add: authenticateUser_def)

theorem gate_ignores_database_witness:
  "authenticateUser example_secret 300 db_astra (bearer token_astra) =
     Inr \<lparr>ru_userId = 1, ru_username = ''astra''\<rparr> \<and>
   authenticateUser example_secret 300 db_logged_out (bearer token_astra) =
     Inr \<lparr>ru_userId = 1, ru_username = ''astra''\<rparr> \<and>
   stored_token db_astra 1 = Some token_astra \<and> stored_token db_logged_out 1 = None"
proof -
  have "authenticateUser example_secret 300 db_logged_out (bearer token_astra) =
          Inr \<lparr>ru_userId = 1, ru_username = ''astra''\<rparr>"
    by (simp add: example_defs route_defs)
  moreover have "stored_token db_astra 1 = Some token_astra"
    by (simp add: stored_token_def db_astra_def astra_def)
  moreover have "stored_token db_logged_out 1 = None"
    by (simp add: stored_token_def db_logged_out_def astra_def)
  ultimately show ?thesis
    using gate_ignores_database [of example_secret 300 db_astra "bearer token_astra" db_logged_out]
    by simp
qed

text \<open>
  C1. The middleware does not compare the presented token with the one stored on the
  user's record: after the logout has cleared the stored token, and after a second
  login has stored another token, a request with the first token is still accepted.
\<close>

theorem revoked_token_still_accepted:
  "authenticateUser example_secret 300 db_logged_out (bearer token_astra) =
     Inr \<lparr>ru_userId = 1, ru_username = ''astra''\<rparr> \<and>
   stored_token db_logged_out 1 = None \<and>
   authenticateUser example_secret 300 db_relogin (bearer token_astra) =
     Inr \<lparr>ru_userId = 1, ru_username = ''astra''\<rparr> \<and>
   stored_token db_relogin 1 = Some token_astra2 \<and> token_astra2 \<noteq> token_astra"
  by (simp add: example_defs route_defs stored_token_def db_logged_out_def db_relogin_def)

section \<open>Sign-up and login\<close>

lemma error_handler_no_token: "issued_token (error_handler err) = None"
  by (simp add: issued_token_def json_get_def error_handler_def res_status_json_def Let_def)

lemma invalid_login_no_token: "issued_token invalid_login = None"
  by (simp add: issued_token_def json_get_def invalid_login_def res_status_json_def)

lemma spread_token:
  "map_of (js_spread_set (select_star_user u) ''token'' v) ''token'' = Some v"
  by (simp add: js_spread_set_def select_star_user_def)

lemma sign_up_issued:
  assumes "issued_token (snd (sign_up secret now bcrypt_hash username password adventurerName d)) = Some t"
  shows "jwt_exp t = None \<and> well_signed secret t"
proof (cases "bcrypt_hash_call bcrypt_hash password")
  case (Inl err)
  with assms show ?thesis
    by (simp add: sign_up_def error_handler_no_token)
next
  case (Inr hashedPassword)
  note h = this
  show ?thesis
  proof (cases "insert_user username hashedPassword adventurerName d")
    case (Inl err)
    with assms h show ?thesis
      by (simp add: sign_up_def error_handler_no_token)
  next
    case (Inr ud)
    obtain user d1 where ud: "ud = (user, d1)" by (cases ud)
    show ?thesis
    proof (cases "secret = []")
      case True
      with assms h Inr ud show ?thesis
        by (simp add: sign_up_def jwt_sign_def error_handler_no_token)
    next
      case False
      with assms h Inr ud show ?thesis
        by (auto simp: sign_up_def jwt_sign_def issued_token_def json_get_def res_json_def
            well_signed_def)
    qed
  qed
qed

lemma login_issued:
  assumes "issued_token (snd (login secret now bcrypt_compare username password d)) = Some t"
  shows "jwt_exp t = None \<and> well_signed secret t"
proof (cases "select_user_by_username username d")
  case None
  with assms show ?thesis
    by (simp add: login_def invalid_login_no_token)
next
  case (Some user)
  show ?thesis
  proof (cases "bcrypt_compare_call bcrypt_compare password (u_password_hash user)")
    case (Inl err)
    with assms Some show ?thesis
      by (simp add: login_def error_handler_no_token)
  next
    case (Inr passwordMatch)
    note pw = this
    show ?thesis
    proof (cases passwordMatch)
      case False
      with assms Some pw show ?thesis
        by (simp add: login_def invalid_login_no_token)
    next
      case True
      note m = this
      show ?thesis
      proof (cases "secret = []")
        case True
        with assms Some pw m show ?thesis
          by (simp add: login_def jwt_sign_def error_handler_no_token)
      next
        case False
        with assms Some pw m show ?thesis
          by (auto simp: login_def jwt_sign_def issued_token_def json_get_def res_json_def
              well_signed_def spread_token)
      qed
    qed
  qed
qed

lemma never_expires:
  assumes "jwt_exp t = None" and "well_signed secret t"
  shows "authenticateUser secret later d (Some [Text ''Bearer'', Compact t]) =
           Inr \<lparr>ru_userId = jwt_userId t, ru_username = jwt_username t\<rparr>"
  using assms
  by (simp add: authenticateUser_accepts presented_def unexpired_def)

lemma issued_tokens_never_rejected:
  assumes "issued_token (snd (sign_up secret now bcrypt_hash username password adventurerName d))
             = Some t \<or>
           issued_token (snd (login secret now bcrypt_compare username pw d)) = Some t"
  shows "authenticateUser secret later d' (Some [Text ''Bearer'', Compact t]) =
           Inr \<lparr>ru_userId = jwt_userId t, ru_username = jwt_username t\<rparr>"
proof -
  from assms have "jwt_exp t = None \<and> well_signed secret t"
    using sign_up_issued login_issued by blast
  then show ?thesis
    by (simp add: never_expires)
qed

text \<open>
  C4. The token issued at sign-up carries no expiry: \<^verbatim>\<open>jwt.sign\<close> is called without
  \<^verbatim>\<open>expiresIn\<close>, and the middleware accepts the token however late the request comes.
  The token-expired branch of the middleware is taken only for a token that carries an
  expiry, as the last conjunct shows.
\<close>

theorem issued_token_never_expires:
  "issued_token (snd (sign_up example_secret 100 example_hash ''astra'' (JsString ''pw1'') ''Zel'' db0))
     = Some token_astra \<and>
   jwt_exp token_astra = None \<and>
   authenticateUser example_secret 4000000000 db_astra (bearer token_astra) =
     Inr \<lparr>ru_userId = 1, ru_username = ''astra''\<rparr> \<and>
   authenticateUser example_secret 60 db_astra
       (bearer (token_astra\<lparr>jwt_iat := 40, jwt_exp := Some 50\<rparr>)) = Inl token_expired"
proof -
  have "issued_token (snd (sign_up example_secret 100 example_hash ''astra'' (JsString ''pw1'') ''Zel'' db0))
          = Some token_astra"
    by (simp add: db_astra_reached issued_token_def json_get_def res_json_def)
  moreover have "jwt_exp token_astra = None"
    by (simp add: token_astra_def)
  moreover have "authenticateUser example_secret 4000000000 db_astra (bearer token_astra) =
     Inr \<lparr>ru_userId = 1, ru_username = ''astra''\<rparr>"
    by (simp add: example_defs route_defs)
  moreover have "authenticateUser example_secret 60 db_astra
       (bearer (token_astra\<lparr>jwt_iat := 40, jwt_exp := Some 50\<rparr>)) = Inl token_expired"
    by (simp add: example_defs route_defs token_expired_def)
  ultimately show ?thesis by simp
qed

lemma login_success:
  assumes "select_user_by_username username d = Some user"
    and "bcrypt_compare pw (u_password_hash user)" and "secret \<noteq> []"
    and "newToken = \<lparr>jwt_key = secret, jwt_userId = u_id user, jwt_username = u_username user,
                      jwt_iat = now, jwt_exp = None\<rparr>"
  shows "login secret now bcrypt_compare username (JsString pw) d =
           (update_token (Some newToken) (u_id user) d,
            res_json (JObj [(''user'',
              JObj [(''id'', JNum (u_id user)), (''username'', JStr (u_username user)),
                    (''password_hash'', JStr (u_password_hash user)),
                    (''adventurer_name'', JStr (u_adventurer_name user)),
                    (''token'', JTok newToken)])]))"
  using assms
  by (simp add: login_def bcrypt_compare_call_def jwt_sign_def js_spread_set_def
      select_star_user_def)

text \<open>
  C3. The body of a successful login holds the whole row of the user, the password hash
  included: here the login of \<open>astra\<close> on the database the sign-up left.
\<close>

theorem login_response_holds_password_hash:
  "map u_password_hash (users db_astra) = [''$2b$10$pw1''] \<and>
   snd (login example_secret 250 example_compare ''astra'' (JsString ''pw1'') db_astra) =
     res_json (JObj [(''user'',
       JObj [(''id'', JNum 1), (''username'', JStr ''astra''),
             (''password_hash'', JStr ''$2b$10$pw1''),
             (''adventurer_name'', JStr ''Zel''),
             (''token'', JTok token_astra2)])])"
  by (simp add: db_astra_def example_defs route_defs js_spread_set_def select_star_user_def)

lemma login_string_failures:
  assumes "select_user_by_username usernameA dA = None"
    and "select_user_by_username usernameB dB = Some user"
    and "\<not> bcrypt_compareB pwB (u_password_hash user)"
  shows "login secretA nowA bcrypt_compareA usernameA passwordA dA = (dA, invalid_login) \<and>
         login secretB nowB bcrypt_compareB usernameB (JsString pwB) dB = (dB, invalid_login)"
  using assms by (simp add: login_def bcrypt_compare_call_def)

text \<open>
  C6. A login without a password field fails with a response that tells whether the
  username exists: for an unknown username the answer is the 401 of a failed login, for
  an existing one \<^verbatim>\<open>bcrypt.compare\<close> throws and the generic error handler answers 500
  with the message of bcrypt.
\<close>

theorem login_failure_reveals_username:
  "login example_secret 260 example_compare ''nobody'' JsUndefined db_astra =
     (db_astra, res_status_json 401 (JObj [(''error'', JStr ''Invalid username or password'')])) \<and>
   login example_secret 260 example_compare ''astra'' JsUndefined db_astra =
     (db_astra, res_status_json 500
        (JObj [(''error'',
           JObj [(''message'', JStr ''data and hash arguments required''),
                 (''status'', JNum 500)])]))"
  by (simp add: db_astra_def astra_def login_def select_user_by_username_def
      bcrypt_compare_call_def invalid_login_def error_handler_def js_error_def)

lemma duplicate_sign_up_response:
  assumes "username \<in> set (map u_username (users d))"
  shows "snd (sign_up secret now bcrypt_hash username (JsString pw) adventurerName d) =
           res_status_json 500
             (JObj [(''error'',
                JObj [(''message'', JStr (exn_message unique_violation)),
                      (''status'', JNum 500)])]) \<and>
         users (fst (sign_up secret now bcrypt_hash username (JsString pw) adventurerName d)) = users d"
  using assms
  by (simp add: sign_up_def bcrypt_hash_call_def insert_user_def error_handler_def
      unique_violation_def js_error_def)

text \<open>
  C7. The response to a sign-up with a username that exists is built by the generic
  error handler from the error of the INSERT: status 500, and a body that carries the
  message of the violated unique constraint.
\<close>

theorem duplicate_sign_up_leaks_message:
  "snd (sign_up example_secret 150 example_hash ''astra'' (JsString ''other'') ''Zed'' db_astra) =
     res_status_json 500
       (JObj [(''error'',
          JObj [(''message'', JStr (exn_message unique_violation)), (''status'', JNum 500)])]) \<and>
   exn_message unique_violation =
     ''duplicate key value violates unique constraint '' @
       [CHR 0x22] @ ''users_username_key'' @ [CHR 0x22]"
  by (simp add: db_astra_def astra_def sign_up_def bcrypt_hash_call_def insert_user_def
      error_handler_def unique_violation_def js_error_def)

section \<open>Saved progress\<close>

lemma save_progress_owner:
  assumes "authenticateUser secret now d authorization = Inr user"
    and "integer_range userId" and "integer_range storyId" and "integer_range chapterId"
  shows "user_progress (fst (save_progress userId storyId chapterId gameState inventory saveName
           secret now authorization d)) =
         user_progress d @
           [\<lparr>p_id = user_progress_id_seq d, p_user_id = userId, p_story_id = storyId,
             p_chapter_id = chapterId, p_game_state = gameState, p_inventory = inventory,
             p_save_name = saveName\<rparr>]"
  using assms
  by (simp add: save_progress_def protected_def save_progress_handler_def insert_progress_def
      Let_def)

text \<open>
  C2. The row \<^verbatim>\<open>save-progress\<close> creates is owned by the \<open>userId\<close> of the request body:
  \<open>astra\<close>, authenticated as user 1, sends \<open>userId = 2\<close>, and the save belongs to user 2.
\<close>

theorem save_progress_owner_from_body:
  "authenticateUser example_secret 120 db_two (bearer token_astra) =
     Inr \<lparr>ru_userId = 1, ru_username = ''astra''\<rparr> \<and>
   save_progress 2 1 2 (JObj [(''hp'', JNum 10)]) (JArr []) ''mine''
       example_secret 120 (bearer token_astra) db_two =
     (db_two\<lparr>user_progress := [slot 1 2 ''mine''], user_progress_id_seq := 2\<rparr>,
      res_status_json 200
        (JObj [(''savedProgress'', JObj [(''id'', JNum 1), (''save_name'', JStr ''mine'')])])) \<and>
   p_user_id (slot 1 2 ''mine'') = 2"
proof -
  have a: "authenticateUser example_secret 120 db_two (bearer token_astra) =
     Inr \<lparr>ru_userId = 1, ru_username = ''astra''\<rparr>"
    by (simp add: example_defs route_defs)
  then have "save_progress 2 1 2 (JObj [(''hp'', JNum 10)]) (JArr []) ''mine''
       example_secret 120 (bearer token_astra) db_two =
     (db_two\<lparr>user_progress := [slot 1 2 ''mine''], user_progress_id_seq := 2\<rparr>,
      res_status_json 200
        (JObj [(''savedProgress'', JObj [(''id'', JNum 1), (''save_name'', JStr ''mine'')])]))"
    by (simp add: save_progress_def protected_def save_progress_handler_def
        insert_progress_def integer_range_def returning_progress_def db_two_def slot_def
        Let_def)
  with a show ?thesis
    by (simp add: slot_def)
qed

lemma protected_accepted:
  "authenticateUser secret now d authorization = Inr user \<Longrightarrow>
     protected handler secret now authorization d = handler user d"
  by (simp add: protected_def)

lemma filter_none:
  "\<not> (\<exists>p \<in> set xs. P p) \<Longrightarrow> filter P xs = [] \<and> filter (\<lambda>p. \<not> P p) xs = xs"
  by (induction xs) auto

lemma filter_subsumed:
  "(\<And>x. P x \<Longrightarrow> Q x) \<Longrightarrow> filter P (filter Q xs) = filter P xs"
  by (induction xs) auto

lemma filter_unique_id:
  assumes "distinct (map p_id xs)" and "p \<in> set xs" and "p_id p = i" and "p_user_id p = uid"
  shows "filter (\<lambda>q. p_id q = i \<and> p_user_id q = uid) xs = [p] \<and>
         filter (\<lambda>q. \<not> (p_id q = i \<and> p_user_id q = uid)) xs = remove1 p xs"
  using assms
proof (induction xs)
  case Nil
  then show ?case by simp
next
  case (Cons a xs)
  show ?case
  proof (cases "a = p")
    case True
    from Cons.prems(1) True Cons.prems(3)
    have "\<not> (\<exists>q \<in> set xs. p_id q = i \<and> p_user_id q = uid)"
      by (auto simp: image_iff)
    then have "filter (\<lambda>q. p_id q = i \<and> p_user_id q = uid) xs = [] \<and>
               filter (\<lambda>q. \<not> (p_id q = i \<and> p_user_id q = uid)) xs = xs"
      by (rule filter_none)
    with True Cons.prems(3,4) show ?thesis by simp
  next
    case False
    with Cons.prems(2) have mem: "p \<in> set xs" by simp
    with Cons.prems(1,3) have "p_id a \<noteq> i" by (auto simp: image_iff)
    moreover from Cons.IH Cons.prems(1) mem Cons.prems(3,4)
    have "filter (\<lambda>q. p_id q = i \<and> p_user_id q = uid) xs = [p] \<and>
          filter (\<lambda>q. \<not> (p_id q = i \<and> p_user_id q = uid)) xs = remove1 p xs"
      by simp
    ultimately show ?thesis using False by simp
  qed
qed

lemma astra_accepted:
  "authenticateUser example_secret now d (bearer token_astra) =
     Inr \<lparr>ru_userId = 1, ru_username = ''astra''\<rparr>"
  by (simp add: example_defs route_defs)

lemmas pg_integer_defs = pg_integer_def is_space_def digit_of_def integer_range_def Let_def

text \<open>
  C5, as the claim states it, fails: no save has the id \<^verbatim>\<open>abc\<close> or \<^verbatim>\<open>2147483648\<close>, and
  the response is not the not-found response but the generic 500 of the \<^verbatim>\<open>catch\<close> block.
\<close>

theorem delete_progress_bad_id_counterexample:
  "delete_progress ''abc'' example_secret 300 (bearer token_astra) db_saves =
     (db_saves, internal_server_error) \<and>
   delete_progress ''2147483648'' example_secret 300 (bearer token_astra) db_saves =
     (db_saves, internal_server_error) \<and>
   internal_server_error \<noteq> delete_not_found"
proof -
  have "pg_integer ''abc'' = Inl invalid_input_syntax"
    by (simp add: pg_integer_defs)
  moreover have "pg_integer ''2147483648'' = Inl out_of_range"
    by (simp add: pg_integer_defs)
  moreover have "internal_server_error \<noteq> delete_not_found"
    by (simp add: internal_server_error_def delete_not_found_def res_status_json_def)
  ultimately show ?thesis
    by (simp add: delete_progress_def protected_accepted [OF astra_accepted]
        delete_progress_handler_def delete_progress_rows_def)
qed

text \<open>
  C5, amended. The delete matches the id and the caller in one statement. When the route
  parameter is an integer and no save has that id with the caller as owner, whether the
  id is unknown or the save is another owner's, the response is the same not-found
  response and the database is unchanged. When the parameter is not an integer, the
  response is the generic 500, whatever the table holds, and the database is unchanged.
  When the caller owns the save with that id, that row and no other is deleted. In every
  case the saves of the other owners and the users stay as they are.
\<close>

theorem delete_progress_owner_scoped:
  assumes "authenticateUser secret now d authorization = Inr user"
  shows "(pg_integer progressId = Inr i \<and>
          \<not> (\<exists>p \<in> set (user_progress d). p_id p = i \<and> p_user_id p = ru_userId user) \<longrightarrow>
            delete_progress progressId secret now authorization d = (d, delete_not_found)) \<and>
         (pg_integer progressId = Inl err \<longrightarrow>
            delete_progress progressId secret now authorization d = (d, internal_server_error)) \<and>
         (pg_integer progressId = Inr i \<and> distinct (map p_id (user_progress d)) \<and>
          p \<in> set (user_progress d) \<and> p_id p = i \<and> p_user_id p = ru_userId user \<longrightarrow>
            delete_progress progressId secret now authorization d =
              (d\<lparr>user_progress := remove1 p (user_progress d)\<rparr>, deleted_successfully)) \<and>
         filter (\<lambda>p. p_user_id p \<noteq> ru_userId user)
             (user_progress (fst (delete_progress progressId secret now authorization d))) =
           filter (\<lambda>p. p_user_id p \<noteq> ru_userId user) (user_progress d) \<and>
         users (fst (delete_progress progressId secret now authorization d)) = users d"
proof -
  have run: "delete_progress progressId secret now authorization d =
      delete_progress_handler progressId user d"
    using assms by (simp add: delete_progress_def protected_accepted)
  have miss: "delete_progress_handler progressId user d = (d, delete_not_found)"
    if "pg_integer progressId = Inr i"
      and "\<not> (\<exists>p \<in> set (user_progress d). p_id p = i \<and> p_user_id p = ru_userId user)"
  proof -
    from that(2)
    have "filter (\<lambda>p. p_id p = i \<and> p_user_id p = ru_userId user) (user_progress d) = [] \<and>
          filter (\<lambda>p. \<not> (p_id p = i \<and> p_user_id p = ru_userId user)) (user_progress d) =
            user_progress d"
      by (rule filter_none)
    with that(1) show ?thesis
      by (simp add: delete_progress_handler_def delete_progress_rows_def)
  qed
  have bad: "delete_progress_handler progressId user d = (d, internal_server_error)"
    if "pg_integer progressId = Inl err"
    using that by (simp add: delete_progress_handler_def delete_progress_rows_def)
  have hit: "delete_progress_handler progressId user d =
      (d\<lparr>user_progress := remove1 p (user_progress d)\<rparr>, deleted_successfully)"
    if "pg_integer progressId = Inr i" and "distinct (map p_id (user_progress d))"
      and "p \<in> set (user_progress d)" and "p_id p = i" and "p_user_id p = ru_userId user"
  proof -
    from that(2-5)
    have "filter (\<lambda>q. p_id q = i \<and> p_user_id q = ru_userId user) (user_progress d) = [p] \<and>
          filter (\<lambda>q. \<not> (p_id q = i \<and> p_user_id q = ru_userId user)) (user_progress d) =
            remove1 p (user_progress d)"
      by (rule filter_unique_id)
    with that(1) show ?thesis
      by (simp add: delete_progress_handler_def delete_progress_rows_def)
  qed
  have others: "filter (\<lambda>p. p_user_id p \<noteq> ru_userId user)
        (user_progress (fst (delete_progress_handler progressId user d))) =
      filter (\<lambda>p. p_user_id p \<noteq> ru_userId user) (user_progress d)"
  proof (cases "pg_integer progressId")
    case (Inl e)
    then show ?thesis
      by (simp add: delete_progress_handler_def delete_progress_rows_def)
  next
    case (Inr j)
    have "filter (\<lambda>p. p_user_id p \<noteq> ru_userId user)
        (filter (\<lambda>p. \<not> (p_id p = j \<and> p_user_id p = ru_userId user)) (user_progress d)) =
      filter (\<lambda>p. p_user_id p \<noteq> ru_userId user) (user_progress d)"
      by (rule filter_subsumed) simp
    with Inr show ?thesis
      by (simp add: delete_progress_handler_def delete_progress_rows_def)
  qed
  have same_users: "users (fst (delete_progress_handler progressId user d)) = users d"
    by (cases "pg_integer progressId")
       (simp_all add: delete_progress_handler_def delete_progress_rows_def)
  from miss bad hit others same_users show ?thesis
    unfolding run by blast
qed

lemma db_saves_distinct: "distinct (map p_id (user_progress db_saves))"
  by (simp add: db_saves_def slot_def)

theorem delete_progress_owner_scoped_witness:
  "delete_progress ''2'' example_secret 300 (bearer token_astra) db_saves = (db_saves, delete_not_found) \<and>
   delete_progress ''99'' example_secret 300 (bearer token_astra) db_saves = (db_saves, delete_not_found) \<and>
   delete_progress ''1.5'' example_secret 300 (bearer token_astra) db_saves =
     (db_saves, internal_server_error) \<and>
   delete_progress ''3'' example_secret 300 (bearer token_astra) db_saves =
     (db_saves\<lparr>user_progress := [slot 1 1 ''slot1'', slot 2 2 ''borin1'']\<rparr>, deleted_successfully)"
proof -
  have p2: "pg_integer ''2'' = Inr 2" and p99: "pg_integer ''99'' = Inr 99"
    and p3: "pg_integer ''3'' = Inr 3" and pbad: "pg_integer ''1.5'' = Inl invalid_input_syntax"
    by (simp_all add: pg_integer_defs)
  have a: "\<not> (\<exists>p \<in> set (user_progress db_saves). p_id p = 2 \<and> p_user_id p = 1)"
    by (simp add: db_saves_def slot_def)
  have b: "\<not> (\<exists>p \<in> set (user_progress db_saves). p_id p = 99 \<and> p_user_id p = 1)"
    by (simp add: db_saves_def slot_def)
  have c: "slot 3 1 ''slot2'' \<in> set (user_progress db_saves)"
    "p_id (slot 3 1 ''slot2'') = 3" "p_user_id (slot 3 1 ''slot2'') = 1"
    by (simp_all add: db_saves_def slot_def)
  have r: "remove1 (slot 3 1 ''slot2'') (user_progress db_saves) =
      [slot 1 1 ''slot1'', slot 2 2 ''borin1'']"
    by (simp add: db_saves_def slot_def)
  from p2 a delete_progress_owner_scoped [OF astra_accepted, where now = 300 and d = db_saves
        and progressId = "''2''" and i = 2]
  have "delete_progress ''2'' example_secret 300 (bearer token_astra) db_saves =
      (db_saves, delete_not_found)"
    by simp
  moreover from p99 b delete_progress_owner_scoped [OF astra_accepted, where now = 300
        and d = db_saves and progressId = "''99''" and i = 99]
  have "delete_progress ''99'' example_secret 300 (bearer token_astra) db_saves =
      (db_saves, delete_not_found)"
    by simp
  moreover from pbad delete_progress_owner_scoped [OF astra_accepted, where now = 300
        and d = db_saves and progressId = "''1.5''" and err = invalid_input_syntax]
  have "delete_progress ''1.5'' example_secret 300 (bearer token_astra) db_saves =
      (db_saves, internal_server_error)"
    by simp
  moreover from p3 c r db_saves_distinct
    delete_progress_owner_scoped [OF astra_accepted, where now = 300
        and d = db_saves and progressId = "''3''" and i = 3 and p = "slot 3 1 ''slot2''"]
  have "delete_progress ''3'' example_secret 300 (bearer token_astra) db_saves =
      (db_saves\<lparr>user_progress := [slot 1 1 ''slot1'', slot 2 2 ''borin1'']\<rparr>, deleted_successfully)"
    by simp
  ultimately show ?thesis by simp
qed










subsection \<open>Ids follow creation in every state the server reaches\<close>

lemma ids_follow_creation_db0: "ids_follow_creation db0"
  by (simp add: ids_follow_creation_def db0_def)

lemma ids_follow_creation_cong:
  "user_progress d' = user_progress d \<Longrightarrow> user_progress_id_seq d' = user_progress_id_seq d \<Longrightarrow>
     ids_follow_creation d' = ids_follow_creation d"
  by (simp add: ids_follow_creation_def)

lemma insert_progress_ids:
  assumes "ids_follow_creation d"
    and "insert_progress userId storyId chapterId gameState inventory saveName d = Inr (p, d')"
  shows "ids_follow_creation d'"
proof -
  from assms(1) have s: "sorted_wrt (<) (map p_id (user_progress d))"
    and b: "\<forall>p \<in> set (user_progress d). p_id p < user_progress_id_seq d"
    by (simp_all add: ids_follow_creation_def list_all_iff)
  from b have "\<forall>p \<in> set (user_progress d). p_id p < user_progress_id_seq d + 1"
    by auto
  with s b assms(2) show ?thesis
    by (auto simp: ids_follow_creation_def insert_progress_def Let_def sorted_wrt_append
        list_all_iff split: if_splits)
qed

lemma delete_progress_rows_ids:
  assumes "ids_follow_creation d"
    and "delete_progress_rows progressId uid d = Inr (rows, d')"
  shows "ids_follow_creation d'"
proof -
  from assms(2) obtain i where i: "pg_integer progressId = Inr i"
    and d': "d' = d\<lparr>user_progress :=
                   filter (\<lambda>p. \<not> (p_id p = i \<and> p_user_id p = uid)) (user_progress d)\<rparr>"
    by (auto simp: delete_progress_rows_def split: sum.splits)
  from assms(1) have "sorted_wrt (\<lambda>x y. p_id x < p_id y) (user_progress d)"
    by (simp add: ids_follow_creation_def sorted_wrt_map)
  then have "sorted_wrt (\<lambda>x y. p_id x < p_id y)
      (filter (\<lambda>p. \<not> (p_id p = i \<and> p_user_id p = uid)) (user_progress d))"
    by (rule sorted_wrt_filter)
  moreover from assms(1) have "\<forall>p \<in> set (user_progress d). p_id p < user_progress_id_seq d"
    by (simp add: ids_follow_creation_def list_all_iff)
  ultimately show ?thesis
    by (simp add: d' ids_follow_creation_def sorted_wrt_map list_all_iff)
qed

lemma save_progress_handler_ids:
  assumes "ids_follow_creation d"
  shows "ids_follow_creation
           (fst (save_progress_handler userId storyId chapterId gameState inventory saveName user d))"
proof (cases "insert_progress userId storyId chapterId gameState inventory saveName d")
  case (Inl err)
  with assms show ?thesis by (simp add: save_progress_handler_def)
next
  case (Inr pd)
  obtain p d' where "pd = (p, d')" by (cases pd)
  with Inr insert_progress_ids [OF assms] show ?thesis
    by (simp add: save_progress_handler_def)
qed

lemma delete_progress_handler_ids:
  assumes "ids_follow_creation d"
  shows "ids_follow_creation (fst (delete_progress_handler progressId user d))"
proof (cases "delete_progress_rows progressId (ru_userId user) d")
  case (Inl err)
  with assms show ?thesis by (simp add: delete_progress_handler_def)
next
  case (Inr rd)
  obtain rows d' where "rd = (rows, d')" by (cases rd)
  with Inr delete_progress_rows_ids [OF assms] show ?thesis
    by (simp add: delete_progress_handler_def)
qed

lemma ids_follow_creation_distinct:
  "ids_follow_creation d \<Longrightarrow> distinct (map p_id (user_progress d))"
  by (simp add: ids_follow_creation_def strict_sorted_iff)

lemma protected_ids:
  assumes "\<And>user. ids_follow_creation (fst (handler user d))" and "ids_follow_creation d"
  shows "ids_follow_creation (fst (protected handler secret now authorization d))"
  using assms by (simp add: protected_def split: sum.splits)

lemma routes_keep_ids_follow_creation:
  assumes "ids_follow_creation d"
  shows "ids_follow_creation (fst (sign_up secret now bcrypt_hash username password adventurerName d))"
    and "ids_follow_creation (fst (login secret now bcrypt_compare username password d))"
    and "ids_follow_creation (fst (logout secret now authorization d))"
    and "ids_follow_creation (fst (game secret now authorization d))"
    and "ids_follow_creation (fst (save_progress userId storyId chapterId gameState inventory saveName
           secret now authorization d))"
    and "ids_follow_creation (fst (load_progress secret now authorization d))"
    and "ids_follow_creation (fst (delete_progress progressId secret now authorization d))"
    and "ids_follow_creation (fst (update_player newAdventurerName secret now authorization d))"
proof -
  show "ids_follow_creation (fst (sign_up secret now bcrypt_hash username password adventurerName d))"
    using assms
    by (auto simp: sign_up_def insert_user_def update_token_def Let_def ids_follow_creation_def
        split: sum.splits if_splits prod.splits)
  show "ids_follow_creation (fst (login secret now bcrypt_compare username password d))"
    using assms
    by (auto simp: login_def update_token_def Let_def ids_follow_creation_def
        split: option.splits sum.splits)
  show "ids_follow_creation (fst (logout secret now authorization d))"
    unfolding logout_def using assms
    by (intro protected_ids) (simp_all add: logout_handler_def update_token_def ids_follow_creation_def)
  show "ids_follow_creation (fst (game secret now authorization d))"
    unfolding game_def using assms
    by (intro protected_ids) (simp_all add: game_handler_def)
  show "ids_follow_creation (fst (save_progress userId storyId chapterId gameState inventory saveName
           secret now authorization d))"
    unfolding save_progress_def using assms
    by (intro protected_ids) (simp_all add: save_progress_handler_ids)
  show "ids_follow_creation (fst (load_progress secret now authorization d))"
    unfolding load_progress_def using assms
    by (intro protected_ids) (simp_all add: load_progress_handler_def split: list.splits)
  show "ids_follow_creation (fst (delete_progress progressId secret now authorization d))"
    unfolding delete_progress_def using assms
    by (intro protected_ids) (simp_all add: delete_progress_handler_ids)
  show "ids_follow_creation (fst (update_player newAdventurerName secret now authorization d))"
    unfolding update_player_def using assms
    by (intro protected_ids)
       (simp_all add: update_player_handler_def update_adventurer_name_def ids_follow_creation_def)
qed

section \<open>Updating the adventurer name\<close>

lemma map_field_kept:
  "(\<And>u. f (g u) = f u) \<Longrightarrow> map f (map (\<lambda>u. if P u then g u else u) xs) = map f xs"
  by (induction xs) auto

text \<open>
  C10. For an authenticated caller, \<^verbatim>\<open>update-player\<close> changes nothing but the adventurer
  name on the caller's own row: ids, usernames, password hashes and stored tokens of all
  rows are as before, the rows of the other users are as before, and so are the saves
  and both id counters.
\<close>

theorem update_player_frame:
  assumes "authenticateUser secret now d authorization = Inr user"
    and "d' = fst (update_player newAdventurerName secret now authorization d)"
  shows "user_progress d' = user_progress d \<and>
         users_id_seq d' = users_id_seq d \<and>
         user_progress_id_seq d' = user_progress_id_seq d \<and>
         map u_id (users d') = map u_id (users d) \<and>
         map u_username (users d') = map u_username (users d) \<and>
         map u_password_hash (users d') = map u_password_hash (users d) \<and>
         map u_token (users d') = map u_token (users d) \<and>
         (\<forall>i < length (users d).
            (u_id (users d ! i) \<noteq> ru_userId user \<longrightarrow> users d' ! i = users d ! i) \<and>
            (u_id (users d ! i) = ru_userId user \<longrightarrow>
               users d' ! i = (users d ! i)\<lparr>u_adventurer_name := newAdventurerName\<rparr>))"
proof -
  from assms have d': "d' = update_adventurer_name newAdventurerName (ru_userId user) d"
    by (simp add: update_player_def protected_accepted update_player_handler_def)
  show ?thesis
    unfolding d' update_adventurer_name_def
    by (simp add: map_field_kept)
qed

theorem update_player_frame_witness:
  "users (fst (update_player ''Zelda'' example_secret 300 (bearer token_astra) db_saves)) =
     [(astra (Some token_astra))\<lparr>u_adventurer_name := ''Zelda''\<rparr>, borin] \<and>
   user_progress (fst (update_player ''Zelda'' example_secret 300 (bearer token_astra) db_saves)) =
     user_progress db_saves"
proof -
  define d' where "d' = fst (update_player ''Zelda'' example_secret 300 (bearer token_astra) db_saves)"
  have u: "users db_saves = [astra (Some token_astra), borin]"
    by (simp add: db_saves_def)
  have ids: "u_id (astra (Some token_astra)) = 1" "u_id borin = 2"
    by (simp_all add: astra_def borin_def)
  note f = update_player_frame [OF astra_accepted d'_def]
  from f have len: "length (users d') = 2"
    using u by (metis length_map length_Cons list.size(3) One_nat_def Suc_1)
  from f u ids have "users d' ! 0 = (astra (Some token_astra))\<lparr>u_adventurer_name := ''Zelda''\<rparr>"
    by simp
  moreover from f u ids have "users d' ! 1 = borin"
    by simp
  ultimately have "users d' = [(astra (Some token_astra))\<lparr>u_adventurer_name := ''Zelda''\<rparr>, borin]"
    using len by (simp add: list_eq_iff_nth_eq nth_Cons' less_Suc_eq numeral_2_eq_2)
  moreover from f have "user_progress d' = user_progress db_saves" by simp
  ultimately show ?thesis unfolding d'_def by simp
qed

end
